theory Spec2Isabelle
  imports Complex_Main "HOL-Library.Sublist"
begin

section \<open>JavaScript string helpers\<close>

text \<open>
  Strings are character lists. The helpers below are the ASCII readings of the
  JavaScript string methods the sources call: \<^verbatim>\<open>includes\<close>, \<^verbatim>\<open>toUpperCase\<close>,
  \<^verbatim>\<open>toLowerCase\<close>, \<^verbatim>\<open>String(n)\<close> on a non-negative integer and
  \<^verbatim>\<open>parseInt(s, 10)\<close>. \<^verbatim>\<open>startsWith\<close> and \<^verbatim>\<open>endsWith\<close> are \<^const>\<open>prefix\<close> and
  \<^const>\<open>suffix\<close>.
\<close>

fun str_includes :: "string \<Rightarrow> string \<Rightarrow> bool" where
  "str_includes [] p = (p = [])"
| "str_includes (c # cs) p = (prefix p (c # cs) \<or> str_includes cs p)"

definition upper_char :: "char \<Rightarrow> char" where
  "upper_char c =
     (case map_of (zip ''abcdefghijklmnopqrstuvwxyz'' ''ABCDEFGHIJKLMNOPQRSTUVWXYZ'') c of
        Some u \<Rightarrow> u | None \<Rightarrow> c)"

definition lower_char :: "char \<Rightarrow> char" where
  "lower_char c =
     (case map_of (zip ''ABCDEFGHIJKLMNOPQRSTUVWXYZ'' ''abcdefghijklmnopqrstuvwxyz'') c of
        Some l \<Rightarrow> l | None \<Rightarrow> c)"

definition toUpperCase :: "string \<Rightarrow> string" where
  "toUpperCase s = map upper_char s"

definition toLowerCase :: "string \<Rightarrow> string" where
  "toLowerCase s = map lower_char s"

definition digit_chars :: string where
  "digit_chars = ''0123456789''"

fun decimal :: "nat \<Rightarrow> string" where
  "decimal n =
     (if n < 10 then [digit_chars ! n]
      else decimal (n div 10) @ [digit_chars ! (n mod 10)])"

declare decimal.simps [simp del]

definition is_digit :: "char \<Rightarrow> bool" where
  "is_digit c = (c \<in> set digit_chars)"

definition digit_val :: "char \<Rightarrow> nat" where
  "digit_val c = length (takeWhile (\<lambda>d. d \<noteq> c) digit_chars)"

definition is_space :: "char \<Rightarrow> bool" where
  "is_space c = (c \<in> set [CHR '' '', CHR 0x09, CHR 0x0A, CHR 0x0B, CHR 0x0C, CHR 0x0D])"

text \<open>
  \<^verbatim>\<open>parseInt(s, 10)\<close>: leading white space is skipped, one sign is read, then the
  longest run of decimal digits; no digit at all gives \<^verbatim>\<open>NaN\<close>, here \<^const>\<open>None\<close>.
\<close>

definition parseInt10 :: "string \<Rightarrow> int option" where
  "parseInt10 s =
     (let t = dropWhile is_space s;
          neg = (t \<noteq> [] \<and> hd t = CHR ''-'');
          u = (if t \<noteq> [] \<and> (hd t = CHR ''-'' \<or> hd t = CHR ''+'') then tl t else t);
          ds = takeWhile is_digit u
      in if ds = [] then None
         else Some ((if neg then - 1 else 1) *
                    int (foldl (\<lambda>a c. 10 * a + digit_val c) 0 ds)))"

section \<open>The network-capture store: data\<close>

type_synonym bytes = string

text \<open>
  A network entry as it is persisted, one JSON object per line of
  \<^verbatim>\<open>requests.jsonl\<close>. \<open>responseContentType\<close> is
  \<^verbatim>\<open>entry.responseHeaders?.["content-type"]\<close> and \<open>http_method\<close> is
  \<^verbatim>\<open>entry.method\<close>. A field that may be missing is an option. Timestamps are integral milliseconds; the status is a non-negative integer.
\<close>

record entry_fields =
  url :: string
  http_method :: string
  status :: nat
  contentType :: "string option"
  responseContentType :: "string option"
  requestBodyHash :: "string option"
  responseBodyHash :: "string option"

record entry = entry_fields +
  entry_id :: string
  timestamp :: int


text \<open>
  The functions of the JavaScript runtime that the store calls and that are not code of
  the repository: \<^verbatim>\<open>new URL(url).origin\<close> (\<^const>\<open>None\<close> when the constructor throws),
  \<^verbatim>\<open>new RegExp(src).test(s)\<close> (\<^const>\<open>None\<close> when the constructor throws a syntax
  error), the byte length of \<^verbatim>\<open>JSON.stringify(entry)\<close>, and the hexadecimal SHA-256
  digest.
\<close>

record platform =
  url_origin :: "string \<Rightarrow> string option"
  regexp_test :: "string \<Rightarrow> string \<Rightarrow> bool option"
  json_len :: "entry \<Rightarrow> nat"
  sha256_hex :: "bytes \<Rightarrow> string"

text \<open>
  One line of \<^verbatim>\<open>requests.jsonl\<close>: its length in bytes without the newline, and what
  \<^verbatim>\<open>JSON.parse\<close> makes of it (\<^const>\<open>None\<close> for a blank or malformed line, which the
  readers skip). A line written by \<^verbatim>\<open>JSON.stringify(e)\<close> parses back to \<open>e\<close>.
\<close>

datatype log_line = Line (raw_len: nat) (parsed: "entry option")

text \<open>
  The base directory. \<open>requests\<close> is \<^const>\<open>None\<close> when \<^verbatim>\<open>requests.jsonl\<close> does
  not exist; \<open>bodies\<close> lists the files of the bodies directory with their contents;
  \<open>meta\<close> is \<^verbatim>\<open>lastCleanup\<close> of the \<^verbatim>\<open>.meta\<close> file; \<open>lock\<close> is the modification
  time of the \<^verbatim>\<open>.lock\<close> file when it exists. \<open>body_writes\<close> counts the calls of
  \<^verbatim>\<open>fs.writeFileSync\<close> on a body file. The directories themselves exist
  (\<^verbatim>\<open>ensureDirectories\<close>).
\<close>

record store =
  requests :: "log_line list option"
  bodies :: "(string \<times> bytes) list"
  meta :: "int option"
  lock :: "int option"
  body_writes :: nat

definition DEFAULT_TTL :: int where
  "DEFAULT_TTL = 24 * 60 * 60 * 1000"

definition DEFAULT_MAX_SIZE :: real where
  "DEFAULT_MAX_SIZE = 200 * 1024 * 1024"

definition truthy_str :: "string option \<Rightarrow> bool" where
  "truthy_str v = (case v of None \<Rightarrow> False | Some s \<Rightarrow> s \<noteq> [])"

section \<open>Query filters\<close>

datatype status_filter = StatusNum int | StatusStr string

text \<open>
  The filter object of \<^verbatim>\<open>readEntries\<close>. An absent property is \<^const>\<open>None\<close>;
  \<open>flt_excludeStatic\<close> is the truthiness of \<^verbatim>\<open>excludeStatic\<close>.
\<close>

record filters =
  flt_origin :: "string option"
  flt_method :: "string option"
  flt_status :: "status_filter option"
  flt_type :: "string option"
  flt_since :: "int option"
  flt_hasBody :: "bool option"
  flt_excludeStatic :: bool
  flt_urlPattern :: "string option"
  flt_last :: "int option"

definition no_filters :: filters where
  "no_filters = \<lparr>flt_origin = None, flt_method = None, flt_status = None, flt_type = None,
     flt_since = None, flt_hasBody = None, flt_excludeStatic = False, flt_urlPattern = None,
     flt_last = None\<rparr>"

definition getOriginFromUrl :: "platform \<Rightarrow> string \<Rightarrow> string option" where
  "getOriginFromUrl P u = url_origin P u"

definition glob_escape_char :: "char \<Rightarrow> string" where
  "glob_escape_char c =
     (if c \<in> set (CHR 0x5C # ''.+^${}()|[]'') then [CHR 0x5C, c]
      else if c = CHR ''*'' then ''.*''
      else [c])"

definition glob_to_regex :: "string \<Rightarrow> string" where
  "glob_to_regex pattern = concat (map glob_escape_char pattern)"

text \<open>
  \<^verbatim>\<open>matchesUrlPattern\<close>. The result \<^const>\<open>None\<close> is the exception of the glob branch,
  whose \<^verbatim>\<open>new RegExp\<close> is not guarded; the regex branch catches it and answers false.
\<close>

definition matchesUrlPattern :: "platform \<Rightarrow> string \<Rightarrow> string option \<Rightarrow> bool option" where
  "matchesUrlPattern P u pat =
     (case pat of
        None \<Rightarrow> Some True
      | Some pattern \<Rightarrow>
          if pattern = [] then Some True
          else if prefix ''/'' pattern \<and> suffix ''/'' pattern then
            (case regexp_test P (butlast (tl pattern)) u of
               None \<Rightarrow> Some False
             | Some b \<Rightarrow> Some b)
          else if CHR ''*'' \<in> set pattern then regexp_test P (glob_to_regex pattern) u
          else Some (str_includes u pattern))"

definition staticExts :: "string list" where
  "staticExts = [''.css'', ''.js'', ''.png'', ''.jpg'', ''.jpeg'', ''.gif'', ''.svg'',
     ''.woff'', ''.woff2'', ''.ttf'', ''.ico'']"

definition origin_ok :: "platform \<Rightarrow> entry \<Rightarrow> string option \<Rightarrow> bool" where
  "origin_ok P e origin =
     (truthy_str origin \<longrightarrow> getOriginFromUrl P (url e) = origin)"

definition method_ok :: "entry \<Rightarrow> string option \<Rightarrow> bool" where
  "method_ok e m = (case m of None \<Rightarrow> True
     | Some s \<Rightarrow> s = [] \<or> http_method e = toUpperCase s)"

definition status_ok :: "entry \<Rightarrow> status_filter option \<Rightarrow> bool" where
  "status_ok e st =
     (case st of
        None \<Rightarrow> True
      | Some (StatusNum n) \<Rightarrow> int (status e) = n
      | Some (StatusStr s) \<Rightarrow>
          if suffix ''xx'' s then prefix [hd s] (decimal (status e))
          else parseInt10 s = Some (int (status e)))"

text \<open>\<^verbatim>\<open>entry.contentType || entry.responseHeaders?.["content-type"] || ""\<close>\<close>

definition entryContentType :: "entry \<Rightarrow> string" where
  "entryContentType e =
     (if truthy_str (contentType e) then the (contentType e)
      else if truthy_str (responseContentType e) then the (responseContentType e)
      else [])"

definition type_ok :: "entry \<Rightarrow> string option \<Rightarrow> bool" where
  "type_ok e ty =
     (case ty of
        None \<Rightarrow> True
      | Some t \<Rightarrow> t = [] \<or> str_includes (entryContentType e) t)"

definition since_ok :: "entry \<Rightarrow> int option \<Rightarrow> bool" where
  "since_ok e since = (case since of None \<Rightarrow> True
     | Some t \<Rightarrow> t = 0 \<or> \<not> timestamp e < t)"

definition hasBody_ok :: "entry \<Rightarrow> bool option \<Rightarrow> bool" where
  "hasBody_ok e hb = (case hb of None \<Rightarrow> True
     | Some b \<Rightarrow> b = truthy_str (responseBodyHash e))"

definition static_ok :: "entry \<Rightarrow> bool \<Rightarrow> bool" where
  "static_ok e excl =
     (\<not> excl \<or>
      \<not> list_ex (\<lambda>ext. suffix ext (toLowerCase (takeWhile (\<lambda>c. c \<noteq> CHR ''?'') (url e))))
          staticExts)"

text \<open>
  \<^verbatim>\<open>matchesFilters\<close>, check by check in the order of the source; \<^const>\<open>None\<close> is an
  exception thrown by the URL pattern check, which is reached only when every earlier
  check has passed.
\<close>

definition matchesFilters :: "platform \<Rightarrow> entry \<Rightarrow> filters \<Rightarrow> bool option" where
  "matchesFilters P e f =
     (if \<not> origin_ok P e (flt_origin f) then Some False
      else if \<not> method_ok e (flt_method f) then Some False
      else if \<not> status_ok e (flt_status f) then Some False
      else if \<not> type_ok e (flt_type f) then Some False
      else if \<not> since_ok e (flt_since f) then Some False
      else if \<not> hasBody_ok e (flt_hasBody f) then Some False
      else if \<not> static_ok e (flt_excludeStatic f) then Some False
      else if truthy_str (flt_urlPattern f) then matchesUrlPattern P (url e) (flt_urlPattern f)
      else Some True)"

text \<open>\<^verbatim>\<open>entries.slice(-last)\<close> when \<^verbatim>\<open>last && last > 0\<close>, all entries otherwise.\<close>

definition tail_slice :: "int option \<Rightarrow> 'a list \<Rightarrow> 'a list" where
  "tail_slice lst es =
     (case lst of
        None \<Rightarrow> es
      | Some n \<Rightarrow> if n > 0 then drop (length es - nat n) es else es)"

text \<open>
  The loop of \<^verbatim>\<open>readEntriesSync\<close> over the lines: a blank or malformed line is
  skipped, and so is a line on which \<^verbatim>\<open>matchesFilters\<close> throws (the same
  \<^verbatim>\<open>try\<close> block catches it).
\<close>

fun collect_matches :: "platform \<Rightarrow> filters \<Rightarrow> log_line list \<Rightarrow> entry list" where
  "collect_matches P f [] = []"
| "collect_matches P f (l # ls) =
     (case parsed l of
        None \<Rightarrow> collect_matches P f ls
      | Some e \<Rightarrow>
          (case matchesFilters P e f of
             Some True \<Rightarrow> e # collect_matches P f ls
           | _ \<Rightarrow> collect_matches P f ls))"

definition readEntriesSync :: "platform \<Rightarrow> filters \<Rightarrow> store \<Rightarrow> entry list" where
  "readEntriesSync P f st =
     (case requests st of
        None \<Rightarrow> []
      | Some ls \<Rightarrow> tail_slice (flt_last f) (collect_matches P f ls))"

section \<open>The network-capture store: operations\<close>

definition body_name :: "string \<Rightarrow> bool \<Rightarrow> string" where
  "body_name hash isRequest = hash @ ''.'' @ (if isRequest then ''req'' else ''res'')"

text \<open>
  \<^verbatim>\<open>storeBody\<close>: the file name is the first 16 hexadecimal digits of the SHA-256
  digest and the kind's extension; the file is written only when no file of that name
  exists.
\<close>

definition storeBody :: "platform \<Rightarrow> bytes \<Rightarrow> bool \<Rightarrow> store \<Rightarrow> string \<times> store" where
  "storeBody P content isRequest st =
     (let hash = take 16 (sha256_hex P content);
          name = body_name hash isRequest
      in if name \<in> set (map fst (bodies st)) then (hash, st)
         else (hash, st\<lparr>bodies := bodies st @ [(name, content)],
                          body_writes := body_writes st + 1\<rparr>))"

definition readBody :: "string \<Rightarrow> bool \<Rightarrow> store \<Rightarrow> bytes option" where
  "readBody hash isRequest st = map_of (bodies st) (body_name hash isRequest)"


definition appendFileSync :: "log_line \<Rightarrow> store \<Rightarrow> store" where
  "appendFileSync l st =
     st\<lparr>requests := Some (case requests st of None \<Rightarrow> [l] | Some ls \<Rightarrow> ls @ [l])\<rparr>"




definition requests_size :: "log_line list \<Rightarrow> nat" where
  "requests_size ls = sum_list (map (\<lambda>l. raw_len l + 1) ls)"

definition bodies_size :: "(string \<times> bytes) list \<Rightarrow> nat" where
  "bodies_size bs = sum_list (map (\<lambda>b. length (snd b)) bs)"

text \<open>The bytes on disk: the log (each line with its newline) and the body files.\<close>

definition disk_total :: "store \<Rightarrow> nat" where
  "disk_total st =
     (case requests st of None \<Rightarrow> 0 | Some ls \<Rightarrow> requests_size ls) + bodies_size (bodies st)"

text \<open>
  The \<^verbatim>\<open>while\<close> loop of \<^verbatim>\<open>cleanup\<close>: drop the first entry and scale the running
  total by the share of entries left, while entries are left and the total exceeds the
  cap. The total is a JavaScript number; it is a real here.
\<close>

fun evict :: "entry list \<Rightarrow> real \<Rightarrow> real \<Rightarrow> entry list \<times> real" where
  "evict [] totalSize maxSize = ([], totalSize)"
| "evict (e # es) totalSize maxSize =
     (if totalSize > maxSize
      then evict es (totalSize * (real (length es) / real (length es + 1))) maxSize
      else (e # es, totalSize))"

record cleanup_options =
  opt_ttl :: "int option"
  opt_maxSize :: "real option"

definition default_options :: cleanup_options where
  "default_options = \<lparr>opt_ttl = None, opt_maxSize = None\<rparr>"

definition ttl_of :: "cleanup_options \<Rightarrow> int" where
  "ttl_of opts = (case opt_ttl opts of None \<Rightarrow> DEFAULT_TTL | Some t \<Rightarrow> t)"

definition maxSize_of :: "cleanup_options \<Rightarrow> real" where
  "maxSize_of opts = (case opt_maxSize opts of None \<Rightarrow> DEFAULT_MAX_SIZE | Some m \<Rightarrow> m)"

record cleanup_result =
  deletedEntries :: nat
  deletedBodies :: nat
  freedBytes :: nat
  remainingEntries :: "nat option"

text \<open>
  Steps 1 and 2 of \<^verbatim>\<open>cleanup\<close>: the entries that survive the TTL and the size cap,
  with the final value of \<^verbatim>\<open>totalSize\<close>.
\<close>

definition survivors :: "platform \<Rightarrow> int \<Rightarrow> cleanup_options \<Rightarrow> store \<Rightarrow> entry list \<times> real" where
  "survivors P now opts st =
     (let cutoffTime = now - ttl_of opts;
          entries = filter (\<lambda>e. timestamp e \<ge> cutoffTime) (readEntriesSync P no_filters st);
          totalSize = real (disk_total st)
      in if totalSize > maxSize_of opts \<and> entries \<noteq> []
         then evict (sort_key timestamp entries) totalSize (maxSize_of opts)
         else (entries, totalSize))"

text \<open>Step 3: the file names that the surviving entries refer to.\<close>

definition referencedHashes :: "entry list \<Rightarrow> string list" where
  "referencedHashes es =
     concat (map (\<lambda>e.
       (if truthy_str (requestBodyHash e) then [the (requestBodyHash e) @ ''.req''] else []) @
       (if truthy_str (responseBodyHash e) then [the (responseBodyHash e) @ ''.res''] else []))
       es)"

text \<open>
  \<^verbatim>\<open>cleanup\<close>, with \<open>now\<close> for \<^verbatim>\<open>Date.now()\<close>. Without a log file only the meta
  file is written. Otherwise: steps 1 to 3, then the body files outside the referenced
  set are unlinked, then the log is rewritten when an entry was dropped or none is
  left, then the meta file is written. Unlinking a body file and renaming the temporary
  log are taken to succeed.
\<close>

definition cleanup :: "platform \<Rightarrow> int \<Rightarrow> cleanup_options \<Rightarrow> store \<Rightarrow> cleanup_result \<times> store" where
  "cleanup P now opts st =
     (case requests st of
        None \<Rightarrow>
          (\<lparr>deletedEntries = 0, deletedBodies = 0, freedBytes = 0, remainingEntries = None\<rparr>,
           st\<lparr>meta := Some now\<rparr>)
      | Some ls \<Rightarrow>
          (let originalCount = length (readEntriesSync P no_filters st);
               entries = fst (survivors P now opts st);
               refs = referencedHashes entries;
               orphans = filter (\<lambda>b. fst b \<notin> set refs) (bodies st);
               deleted = originalCount - length entries
           in (\<lparr>deletedEntries = deleted, deletedBodies = length orphans,
                freedBytes = bodies_size orphans, remainingEntries = Some (length entries)\<rparr>,
               st\<lparr>requests :=
                    (if deleted > 0 \<or> entries = []
                     then Some (map (\<lambda>e. Line (json_len P e) (Some e)) entries)
                     else requests st),
                  bodies := filter (\<lambda>b. fst b \<in> set refs) (bodies st),
                  meta := Some now\<rparr>)))"

section \<open>The workflow engine: values and variables\<close>

text \<open>
  The values that flow through the engine are what \<^verbatim>\<open>JSON.parse\<close> produces, and
  \<^verbatim>\<open>undefined\<close>. Numbers are integers. An object is the list of its own properties;
  a name that only \<^verbatim>\<open>Object.prototype\<close> answers to (such as \<^verbatim>\<open>toString\<close>) is taken
  not to occur as a variable, a property or a command.
\<close>

datatype jsval = JUndefined | JNull | JBool bool | JNum int | JStr string
  | JArr "jsval list" | JObj "(string \<times> jsval) list"

type_synonym vars = "(string \<times> jsval) list"

text \<open>
  The functions of the runtime that the engine calls: \<^verbatim>\<open>JSON.parse\<close> (\<^const>\<open>None\<close> when
  it throws), \<^verbatim>\<open>String\<close> and \<^verbatim>\<open>JSON.stringify\<close>.
\<close>

record js_lib =
  json_parse :: "string \<Rightarrow> jsval option"
  js_String :: "jsval \<Rightarrow> string"
  json_stringify :: "jsval \<Rightarrow> string"

text \<open>The class \<^verbatim>\<open>\w\<close> of the regular expressions in \<^verbatim>\<open>resolveVar\<close>.\<close>

definition is_word :: "char \<Rightarrow> bool" where
  "is_word c = (c \<in> set ''abcdefghijklmnopqrstuvwxyzABCDEFGHIJKLMNOPQRSTUVWXYZ0123456789_'')"

text \<open>\<^verbatim>\<open>vars[name]\<close> and \<^verbatim>\<open>vars[name] = v\<close>.\<close>

definition get_var :: "vars \<Rightarrow> string \<Rightarrow> jsval" where
  "get_var vs name = (case map_of vs name of None \<Rightarrow> JUndefined | Some v \<Rightarrow> v)"

definition set_var :: "string \<Rightarrow> jsval \<Rightarrow> vars \<Rightarrow> vars" where
  "set_var name v vs = (name, v) # filter (\<lambda>p. fst p \<noteq> name) vs"

text \<open>
  \<^verbatim>\<open>template.match(/^%\{(\w+)\}$/)\<close>: the name, when the whole string is one reference.
\<close>

definition simple_ref :: "string \<Rightarrow> string option" where
  "simple_ref s =
     (if prefix ''%{'' s \<and> suffix ''}'' s \<and> butlast (drop 2 s) \<noteq> [] \<and>
         list_all is_word (butlast (drop 2 s))
      then Some (butlast (drop 2 s)) else None)"

text \<open>
  The callback of \<^verbatim>\<open>template.replace(/%\{(\w+)\}/g, ...)\<close> and the replacement itself,
  scanning from the left: an undefined variable leaves its reference as it is, an
  object, array or \<^verbatim>\<open>null\<close> is written as JSON, anything else through \<^verbatim>\<open>String\<close>.
\<close>

definition replacement :: "js_lib \<Rightarrow> vars \<Rightarrow> string \<Rightarrow> string" where
  "replacement L vs name =
     (case get_var vs name of
        JUndefined \<Rightarrow> ''%{'' @ name @ ''}''
      | JNull \<Rightarrow> json_stringify L JNull
      | JArr xs \<Rightarrow> json_stringify L (JArr xs)
      | JObj kvs \<Rightarrow> json_stringify L (JObj kvs)
      | v \<Rightarrow> js_String L v)"

function substitute :: "js_lib \<Rightarrow> vars \<Rightarrow> string \<Rightarrow> string" where
  "substitute L vs [] = []"
| "substitute L vs (c # cs) =
     (if c = CHR ''%'' \<and> cs \<noteq> [] \<and> hd cs = CHR ''{'' \<and>
         takeWhile is_word (tl cs) \<noteq> [] \<and>
         dropWhile is_word (tl cs) \<noteq> [] \<and> hd (dropWhile is_word (tl cs)) = CHR ''}''
      then replacement L vs (takeWhile is_word (tl cs)) @
           substitute L vs (tl (dropWhile is_word (tl cs)))
      else c # substitute L vs cs)"
  by pat_completeness auto
termination
proof (relation "measure (\<lambda>(L, vs, s). length s)")
  show "wf (measure (\<lambda>(L, vs, s). length s))" by simp
next
  fix L :: js_lib and vs :: vars and c :: char and cs :: string
  assume "c = CHR ''%'' \<and> cs \<noteq> [] \<and> hd cs = CHR ''{'' \<and>
         takeWhile is_word (tl cs) \<noteq> [] \<and>
         dropWhile is_word (tl cs) \<noteq> [] \<and> hd (dropWhile is_word (tl cs)) = CHR ''}''"
  have "length (dropWhile is_word (tl cs)) \<le> length (tl cs)"
    by (rule length_dropWhile_le)
  then show "((L, vs, tl (dropWhile is_word (tl cs))), (L, vs, c # cs))
      \<in> measure (\<lambda>(L, vs, s). length s)"
    by simp
next
  fix L :: js_lib and vs :: vars and c :: char and cs :: string
  show "((L, vs, cs), (L, vs, c # cs)) \<in> measure (\<lambda>(L, vs, s). length s)"
    by simp
qed

text \<open>\<^verbatim>\<open>resolveVar\<close> and \<^verbatim>\<open>substituteVars\<close>.\<close>

definition resolveVar :: "js_lib \<Rightarrow> jsval \<Rightarrow> vars \<Rightarrow> jsval" where
  "resolveVar L template vs =
     (case template of
        JStr s \<Rightarrow>
          (case simple_ref s of
             Some name \<Rightarrow> (if get_var vs name \<noteq> JUndefined then get_var vs name else template)
           | None \<Rightarrow> JStr (substitute L vs s))
      | _ \<Rightarrow> template)"

fun substituteVars :: "js_lib \<Rightarrow> jsval \<Rightarrow> vars \<Rightarrow> jsval" where
  "substituteVars L (JArr xs) vs =
     JArr (map (\<lambda>item. case item of
                  JStr s \<Rightarrow> resolveVar L item vs
                | JArr ys \<Rightarrow> substituteVars L item vs
                | JObj kvs \<Rightarrow> substituteVars L item vs
                | _ \<Rightarrow> item) xs)"
| "substituteVars L (JObj kvs) vs =
     JObj (map (\<lambda>kv. (fst kv, case snd kv of
                  JStr s \<Rightarrow> resolveVar L (snd kv) vs
                | JArr ys \<Rightarrow> substituteVars L (snd kv) vs
                | JObj kvs' \<Rightarrow> substituteVars L (snd kv) vs
                | v \<Rightarrow> v)) kvs)"
| "substituteVars L v vs = v"


section \<open>The workflow engine: steps\<close>


definition AUTO_WAIT_MAP :: "(string \<times> string) list" where
  "AUTO_WAIT_MAP =
     [(''navigate'', ''wait.load''), (''go'', ''wait.load''), (''click'', ''wait.dom''),
      (''key'', ''wait.dom''), (''form.fill'', ''wait.dom''), (''submit'', ''wait.load''),
      (''tab.switch'', ''wait.load''), (''tab.new'', ''wait.load''), (''back'', ''wait.load''),
      (''forward'', ''wait.load'')]"

definition AUTO_WAIT_COMMANDS :: "string list" where
  "AUTO_WAIT_COMMANDS = [''go'', ''navigate'', ''click'', ''key'', ''form.fill'', ''submit'',
     ''tab.switch'', ''tab.new'', ''back'', ''forward'']"

definition shouldAutoWait :: "string \<Rightarrow> bool" where
  "shouldAutoWait c = list_ex (\<lambda>p. c = p \<or> prefix (p @ ''.'') c) AUTO_WAIT_COMMANDS"

definition getAutoWaitCommand :: "string \<Rightarrow> string option" where
  "getAutoWaitCommand c =
     (case map_of AUTO_WAIT_MAP c of
        Some w \<Rightarrow> Some w
      | None \<Rightarrow>
          (case filter (\<lambda>kv. prefix (fst kv @ ''.'') c) AUTO_WAIT_MAP of
             [] \<Rightarrow> None
           | kv # _ \<Rightarrow> Some (snd kv)))"

text \<open>
  A step object: a leaf has \<^verbatim>\<open>cmd\<close>, \<^verbatim>\<open>args\<close> and \<^verbatim>\<open>as\<close>; a loop has \<^verbatim>\<open>repeat\<close>
  or \<^verbatim>\<open>each\<close>, \<^verbatim>\<open>steps\<close>, \<^verbatim>\<open>until\<close> and \<^verbatim>\<open>as\<close>. A property that is absent is
  \<^const>\<open>None\<close>; absent \<^verbatim>\<open>steps\<close> are the empty list.
\<close>

datatype step = Step (cmd: string) (args: "jsval option") (as: "string option")
  (repeat: "jsval option") (each: "jsval option") (steps: "step list") (until: "step option")

datatype on_error = Stop | Continue

record exec_options =
  onError :: on_error
  autoWait :: bool

text \<open>
  \<^verbatim>\<open>sendDoRequest\<close> writes one request to the socket; its promise resolves with the
  parsed reply or rejects with a message. The daemon and the browser behind the socket
  are a \<open>responder\<close>: a function of the requests sent before and the request. The list
  of requests sent is threaded through the engine.
\<close>

datatype outcome = Resolved jsval | Rejected string

type_synonym request = "string \<times> jsval"
type_synonym responder = "request list \<Rightarrow> request \<Rightarrow> outcome"

definition sendDoRequest :: "responder \<Rightarrow> string \<Rightarrow> jsval \<Rightarrow> request list \<Rightarrow> outcome \<times> request list" where
  "sendDoRequest R tool toolArgs sent = (R sent (tool, toolArgs), sent @ [(tool, toolArgs)])"

text \<open>Truthiness, \<^verbatim>\<open>v == null\<close>, \<^verbatim>\<open>v.name\<close> and \<^verbatim>\<open>v[0]\<close>.\<close>

definition truthy :: "jsval \<Rightarrow> bool" where
  "truthy v = (case v of JUndefined \<Rightarrow> False | JNull \<Rightarrow> False | JBool b \<Rightarrow> b
     | JNum n \<Rightarrow> n \<noteq> 0 | JStr s \<Rightarrow> s \<noteq> [] | _ \<Rightarrow> True)"

definition nullish :: "jsval \<Rightarrow> bool" where
  "nullish v = (v = JUndefined \<or> v = JNull)"

definition get_prop :: "jsval \<Rightarrow> string \<Rightarrow> jsval" where
  "get_prop v name = (case v of JObj kvs \<Rightarrow> (case map_of kvs name of Some x \<Rightarrow> x | None \<Rightarrow> JUndefined)
     | _ \<Rightarrow> JUndefined)"

definition get_index0 :: "jsval \<Rightarrow> jsval" where
  "get_index0 v = (case v of
       JArr xs \<Rightarrow> (case xs of [] \<Rightarrow> JUndefined | x # _ \<Rightarrow> x)
     | JStr s \<Rightarrow> (case s of [] \<Rightarrow> JUndefined | c # _ \<Rightarrow> JStr [c])
     | JObj kvs \<Rightarrow> (case map_of kvs ''0'' of Some x \<Rightarrow> x | None \<Rightarrow> JUndefined)
     | _ \<Rightarrow> JUndefined)"

text \<open>\<^verbatim>\<open>holder?.content?.[0]?.text\<close>\<close>

definition content0_text :: "jsval \<Rightarrow> jsval" where
  "content0_text holder =
     (if nullish holder then JUndefined
      else if nullish (get_prop holder ''content'') then JUndefined
      else if nullish (get_index0 (get_prop holder ''content'')) then JUndefined
      else get_prop (get_index0 (get_prop holder ''content'')) ''text'')"

text \<open>
  \<^verbatim>\<open>extractStepOutput\<close>: the text of the first content part, parsed as JSON when it
  parses; else \<^verbatim>\<open>resp.value\<close>, else \<^verbatim>\<open>resp.result\<close>, else the reply.
\<close>

definition extractStepOutput :: "js_lib \<Rightarrow> jsval \<Rightarrow> jsval" where
  "extractStepOutput L resp =
     (let text = content0_text (get_prop resp ''result'') in
      if truthy text then
        (case json_parse L (case text of JStr s \<Rightarrow> s | _ \<Rightarrow> js_String L text) of
           Some v \<Rightarrow> v
         | None \<Rightarrow> text)
      else if get_prop resp ''value'' \<noteq> JUndefined then get_prop resp ''value''
      else if get_prop resp ''result'' \<noteq> JUndefined then get_prop resp ''result''
      else resp)"

record single_result =
  success :: bool
  error :: "jsval option"
  step_output :: jsval

definition waitArgs :: "string \<Rightarrow> jsval" where
  "waitArgs waitCmd =
     (if waitCmd = ''wait.load'' then JObj [(''timeout'', JNum 10000)]
      else JObj [(''stable'', JNum 100), (''timeout'', JNum 5000)])"

text \<open>The truthiness of \<^verbatim>\<open>step.as\<close>, and \<^verbatim>\<open>step.args || {}\<close>.\<close>

definition truthy_name :: "string option \<Rightarrow> bool" where
  "truthy_name v = (case v of None \<Rightarrow> False | Some s \<Rightarrow> s \<noteq> [])"

definition argsOf :: "step \<Rightarrow> jsval" where
  "argsOf s = (case args s of None \<Rightarrow> JObj [] | Some a \<Rightarrow> if truthy a then a else JObj [])"

text \<open>
  \<^verbatim>\<open>executeSingleStep\<close>. A rejected request, a reply of \<^verbatim>\<open>null\<close> (reading
  \<^verbatim>\<open>resp.error\<close> throws) and a reply with a truthy \<^verbatim>\<open>error\<close> fail the step. Otherwise
  the output is captured under \<^verbatim>\<open>as\<close>, and with \<^verbatim>\<open>autoWait\<close> the wait request of the
  command is sent and its outcome dropped. The delay between steps is left out.
\<close>

definition executeSingleStep ::
  "js_lib \<Rightarrow> responder \<Rightarrow> exec_options \<Rightarrow> step \<Rightarrow> vars \<Rightarrow> request list
     \<Rightarrow> single_result \<times> vars \<times> request list" where
  "executeSingleStep L R opts st vs sent =
     (let resolvedArgs = substituteVars L (argsOf st) vs;
          (out, sent1) = sendDoRequest R (cmd st) resolvedArgs sent
      in case out of
           Rejected msg \<Rightarrow>
             (\<lparr>success = False, error = Some (JStr msg), step_output = JUndefined\<rparr>, vs, sent1)
         | Resolved resp \<Rightarrow>
             if nullish resp then
               (\<lparr>success = False, error = Some (JStr ''TypeError''), step_output = JUndefined\<rparr>,
                vs, sent1)
             else if truthy (get_prop resp ''error'') then
               (\<lparr>success = False,
                 error = Some (if truthy (content0_text (get_prop resp ''error''))
                               then content0_text (get_prop resp ''error'')
                               else JStr (json_stringify L (get_prop resp ''error''))),
                 step_output = JUndefined\<rparr>, vs, sent1)
             else
               (let vs1 = (if truthy_name (as st)
                           then set_var (the (as st)) (extractStepOutput L resp) vs else vs);
                    sent2 = (if autoWait opts then
                               (case getAutoWaitCommand (cmd st) of
                                  Some waitCmd \<Rightarrow>
                                    snd (sendDoRequest R waitCmd (waitArgs waitCmd) sent1)
                                | None \<Rightarrow> sent1)
                             else sent1)
                in (\<lparr>success = True, error = None,
                     step_output = (if truthy_name (as st) then get_var vs1 (the (as st))
                               else JUndefined)\<rparr>, vs1, sent2)))"













section \<open>Example inputs\<close>

text \<open>
  Concrete stores and arguments on which the theorems below are evaluated. In
  \<open>example_platform\<close> every serialised entry is 100 bytes long and every digest is the
  same; \<open>shared_body_store\<close> holds two entries that refer to one 300 MB response body.
\<close>

definition example_platform :: platform where
  "example_platform = \<lparr>url_origin = (\<lambda>u. None), regexp_test = (\<lambda>r s. None),
     json_len = (\<lambda>e. 100), sha256_hex = (\<lambda>b. ''00112233445566778899aabbccddeeff'')\<rparr>"

definition example_entry :: "string \<Rightarrow> int \<Rightarrow> string option \<Rightarrow> entry" where
  "example_entry i t h = \<lparr>url = ''https://a.test/x'', http_method = ''GET'', status = 200,
     contentType = None, responseContentType = None, requestBodyHash = None,
     responseBodyHash = h, entry_id = i, timestamp = t\<rparr>"

definition shared_body_store :: store where
  "shared_body_store = \<lparr>requests = Some [Line 100 (Some (example_entry ''a'' 1000 (Some ''h''))),
       Line 100 (Some (example_entry ''b'' 2000 (Some ''h'')))],
     bodies = [(''h.res'', replicate 300000000 (CHR ''x''))],
     meta = None, lock = None, body_writes = 1\<rparr>"

definition expiring_store :: store where
  "expiring_store = \<lparr>requests = Some [Line 100 (Some (example_entry ''a'' 1000 None))],
     bodies = [], meta = None, lock = None, body_writes = 0\<rparr>"

definition empty_store :: store where
  "empty_store = \<lparr>requests = None, bodies = [], meta = None, lock = None, body_writes = 0\<rparr>"



text \<open>
  The exclude-static filter as claim C3 words it, for comparison with \<^const>\<open>static_ok\<close>:
  the URL itself does not end in a static asset extension.
\<close>

definition claimed_static_ok :: "entry \<Rightarrow> bool \<Rightarrow> bool" where
  "claimed_static_ok e excl = (\<not> excl \<or> \<not> list_ex (\<lambda>ext. suffix ext (url e)) staticExts)"

text \<open>
  A log of five requests and a blank line, a query that uses every filter, and a platform
  whose regular expressions are plain substrings.
\<close>

definition api_entry :: "string \<Rightarrow> string \<Rightarrow> string \<Rightarrow> nat \<Rightarrow> entry" where
  "api_entry i m u s = \<lparr>url = u, http_method = m, status = s,
     contentType = Some ''application/json'', responseContentType = None, requestBodyHash = None,
     responseBodyHash = None, entry_id = i, timestamp = 1000\<rparr>"

definition query_store :: store where
  "query_store =
     \<lparr>requests = Some [
        Line 100 (Some (api_entry ''1'' ''GET'' ''https://a.test/api/users'' 200)),
        Line 100 (Some (api_entry ''2'' ''POST'' ''https://a.test/api/users'' 201)),
        Line 0 None,
        Line 100 (Some (api_entry ''3'' ''GET'' ''https://a.test/api/items?x=1'' 204)),
        Line 100 (Some (api_entry ''4'' ''GET'' ''https://a.test/api/app.js?v=2'' 200)),
        Line 100 (Some (api_entry ''5'' ''GET'' ''https://a.test/api/gone'' 404))],
      bodies = [], meta = None, lock = None, body_writes = 0\<rparr>"

definition example_query :: filters where
  "example_query = \<lparr>flt_origin = None, flt_method = Some ''get'',
     flt_status = Some (StatusStr ''2xx''), flt_type = Some ''json'',
     flt_since = Some 500, flt_hasBody = Some False, flt_excludeStatic = True,
     flt_urlPattern = Some ''/api/'', flt_last = Some 1\<rparr>"

definition substring_platform :: platform where
  "substring_platform = example_platform\<lparr>regexp_test := (\<lambda>src s. Some (str_includes s src))\<rparr>"

section \<open>Notions used in the statements about the workflow engine\<close>


definition leaf_requests :: "js_lib \<Rightarrow> exec_options \<Rightarrow> step \<Rightarrow> vars \<Rightarrow> request list" where
  "leaf_requests L opts s vs =
     (cmd s, substituteVars L (argsOf s) vs) #
     (if autoWait opts then
        (case getAutoWaitCommand (cmd s) of Some w \<Rightarrow> [(w, waitArgs w)] | None \<Rightarrow> [])
      else [])"


text \<open>
  Example inputs: a reply with one text part, a runtime whose \<^verbatim>\<open>JSON.parse\<close> knows the
  text \<^verbatim>\<open>true\<close> only, a responder that answers every request with that text, a responder
  that rejects every wait request and answers \<^verbatim>\<open>click\<close> with an error, a reply with one
  image part, and the each-loop of scenario 5 of the specification.
\<close>

definition text_reply :: "string \<Rightarrow> jsval" where
  "text_reply t = JObj [(''result'', JObj [(''content'',
     JArr [JObj [(''type'', JStr ''text''), (''text'', JStr t)]])])]"

definition example_lib :: js_lib where
  "example_lib = \<lparr>json_parse = (\<lambda>s. if s = ''true'' then Some (JBool True) else None),
     js_String = (\<lambda>v. case v of JStr s \<Rightarrow> s | _ \<Rightarrow> ''''),
     json_stringify = (\<lambda>v. '''')\<rparr>"



definition image_reply :: jsval where
  "image_reply = JObj [(''result'', JObj [(''content'',
     JArr [JObj [(''type'', JStr ''image''), (''data'', JStr ''iVBOR'')]])])]"





section \<open>Properties of the network-capture store\<close>

lemma matchesFilters_no_filters: "matchesFilters P e no_filters = Some True"
  by (simp add: matchesFilters_def no_filters_def origin_ok_def method_ok_def status_ok_def
      type_ok_def since_ok_def hasBody_ok_def static_ok_def truthy_str_def)

lemma collect_no_filters:
  "collect_matches P no_filters ls = map the (filter (\<lambda>p. p \<noteq> None) (map parsed ls))"
  by (induction ls) (auto simp: matchesFilters_no_filters split: option.splits)

lemma collect_written:
  "collect_matches P no_filters (map (\<lambda>e. Line (json_len P e) (Some e)) es) = es"
  by (induction es) (auto simp: matchesFilters_no_filters)

lemma read_no_filters:
  "readEntriesSync P no_filters st =
     (case requests st of None \<Rightarrow> [] | Some ls \<Rightarrow> collect_matches P no_filters ls)"
  by (simp add: readEntriesSync_def tail_slice_def no_filters_def split: option.splits)

lemma evict_length: "length (fst (evict es t m)) \<le> length es"
  by (induction es t m rule: evict.induct) (auto simp: le_SucI)

lemma evict_shrinks: "t > m \<Longrightarrow> es \<noteq> [] \<Longrightarrow> length (fst (evict es t m)) < length es"
  using evict_length by (cases es) (auto simp: less_Suc_eq_le)


lemma filter_same_length: "length (filter p xs) = length xs \<Longrightarrow> filter p xs = xs"
  by (metis filter_True length_filter_less linorder_not_less order_refl)

lemma survivors_length:
  "length (fst (survivors P now opts st)) \<le> length (readEntriesSync P no_filters st)"
proof -
  let ?es = "filter (\<lambda>e. timestamp e \<ge> now - ttl_of opts) (readEntriesSync P no_filters st)"
  have a: "length ?es \<le> length (readEntriesSync P no_filters st)" by simp
  have "length (fst (evict (sort_key timestamp ?es) (real (disk_total st)) (maxSize_of opts))) \<le> length ?es"
    using evict_length [of "sort_key timestamp ?es"] by simp
  with a have b: "length (fst (evict (sort_key timestamp ?es) (real (disk_total st)) (maxSize_of opts)))
      \<le> length (readEntriesSync P no_filters st)"
    by linarith
  show ?thesis
  proof (cases "real (disk_total st) > maxSize_of opts \<and> ?es \<noteq> []")
    case True
    then show ?thesis using b by (simp add: survivors_def Let_def)
  next
    case False
    then show ?thesis by (auto simp: survivors_def Let_def)
  qed
qed

lemma survivors_all_kept:
  assumes "length (fst (survivors P now opts st)) = length (readEntriesSync P no_filters st)"
  shows "fst (survivors P now opts st) = readEntriesSync P no_filters st"
proof -
  let ?all = "readEntriesSync P no_filters st"
  let ?es = "filter (\<lambda>e. timestamp e \<ge> now - ttl_of opts) ?all"
  show ?thesis
  proof (cases "real (disk_total st) > maxSize_of opts \<and> ?es \<noteq> []")
    case True
    have ls: "length (sort_key timestamp ?es) = length ?es" by simp
    with True have ne: "sort_key timestamp ?es \<noteq> []" by (metis length_0_conv)
    have "length (fst (evict (sort_key timestamp ?es) (real (disk_total st)) (maxSize_of opts))) < length (sort_key timestamp ?es)"
      using True ne by (intro evict_shrinks) auto
    then have "length (fst (evict (sort_key timestamp ?es) (real (disk_total st)) (maxSize_of opts))) < length ?all"
      using ls length_filter_le [of "\<lambda>e. timestamp e \<ge> now - ttl_of opts" ?all] by linarith
    then have "length (fst (survivors P now opts st)) < length ?all"
      using True by (simp add: survivors_def Let_def)
    with assms show ?thesis by simp
  next
    case False
    then have s: "fst (survivors P now opts st) = ?es" by (auto simp: survivors_def Let_def)
    with assms have "length ?es = length ?all" by simp
    then have "?es = ?all" by (rule filter_same_length)
    with s show ?thesis by simp
  qed
qed

lemma read_after_cleanup:
  assumes "requests st = Some ls"
  shows "readEntriesSync P no_filters (snd (cleanup P now opts st)) = fst (survivors P now opts st)"
proof (cases "length (readEntriesSync P no_filters st) - length (fst (survivors P now opts st)) > 0
     \<or> fst (survivors P now opts st) = []")
  case True
  then show ?thesis using assms
    by (auto simp: cleanup_def Let_def read_no_filters collect_written)
next
  case False
  then have "length (fst (survivors P now opts st)) = length (readEntriesSync P no_filters st)"
    using survivors_length [of P now opts st] by simp
  then have "fst (survivors P now opts st) = readEntriesSync P no_filters st"
    by (rule survivors_all_kept)
  then show ?thesis using assms False
    by (auto simp: cleanup_def Let_def read_no_filters)
qed

lemma shared_read:
  "readEntriesSync example_platform no_filters shared_body_store =
     [example_entry ''a'' 1000 (Some ''h''), example_entry ''b'' 2000 (Some ''h'')]"
  by (simp add: read_no_filters matchesFilters_no_filters shared_body_store_def)

lemma shared_total: "disk_total shared_body_store = 300000202"
  by (simp add: disk_total_def shared_body_store_def requests_size_def bodies_size_def)

lemma shared_survivors:
  "survivors example_platform 5000 default_options shared_body_store =
     ([example_entry ''b'' 2000 (Some ''h'')], 150000101)"
  by (simp add: survivors_def shared_read shared_total default_options_def ttl_of_def
      maxSize_of_def DEFAULT_TTL_def DEFAULT_MAX_SIZE_def example_entry_def)

lemma shared_requests:
  "requests shared_body_store = Some [Line 100 (Some (example_entry ''a'' 1000 (Some ''h''))),
       Line 100 (Some (example_entry ''b'' 2000 (Some ''h'')))]"
  by (simp add: shared_body_store_def)

lemma shared_bodies: "bodies shared_body_store = [(''h.res'', replicate 300000000 (CHR ''x''))]"
  by (simp add: shared_body_store_def)

lemma shared_cleanup:
  "cleanup example_platform 5000 default_options shared_body_store =
     (\<lparr>deletedEntries = 1, deletedBodies = 0, freedBytes = 0, remainingEntries = Some 1\<rparr>,
      \<lparr>requests = Some [Line 100 (Some (example_entry ''b'' 2000 (Some ''h'')))],
       bodies = [(''h.res'', replicate 300000000 (CHR ''x''))],
       meta = Some 5000, lock = None, body_writes = 1\<rparr>)"
  apply (simp add: cleanup_def Let_def shared_requests shared_bodies shared_survivors shared_read
       referencedHashes_def truthy_str_def bodies_size_def)
  apply (simp add: shared_body_store_def example_platform_def example_entry_def)
  done

lemma survivors_no_evict:
  "real (disk_total st) \<le> maxSize_of opts \<or>
     filter (\<lambda>e. timestamp e \<ge> now - ttl_of opts) (readEntriesSync P no_filters st) = [] \<Longrightarrow>
   survivors P now opts st =
     (filter (\<lambda>e. timestamp e \<ge> now - ttl_of opts) (readEntriesSync P no_filters st),
      real (disk_total st))"
  by (auto simp: survivors_def Let_def)


lemma cleanup_bodies:
  "requests st = Some ls \<Longrightarrow>
   bodies (snd (cleanup P now opts st)) =
     filter (\<lambda>b. fst b \<in> set (referencedHashes (fst (survivors P now opts st)))) (bodies st)"
  by (simp add: cleanup_def Let_def)




lemma expiring_first:
  "cleanup example_platform (1000 + DEFAULT_TTL) default_options expiring_store =
     (\<lparr>deletedEntries = 0, deletedBodies = 0, freedBytes = 0, remainingEntries = Some 1\<rparr>,
      expiring_store\<lparr>meta := Some (1000 + DEFAULT_TTL)\<rparr>)"
  by (simp add: cleanup_def Let_def survivors_def read_no_filters matchesFilters_no_filters
      expiring_store_def default_options_def ttl_of_def maxSize_of_def DEFAULT_MAX_SIZE_def
      disk_total_def requests_size_def bodies_size_def example_entry_def referencedHashes_def
      truthy_str_def)

text \<open>
  Claim C2 as stated fails. On \<open>shared_body_store\<close> a second run at the same clock
  reading finds 300 MB on disk again, drops the last entry and unlinks the body. On
  \<open>expiring_store\<close> the entry is exactly 24 hours old at the first run and is kept; one
  millisecond later the second run drops it.
\<close>

theorem cleanup_twice_counterexample:
  "deletedEntries (fst (cleanup example_platform 5000 default_options
      (snd (cleanup example_platform 5000 default_options shared_body_store)))) = 1 \<and>
   deletedBodies (fst (cleanup example_platform 5000 default_options
      (snd (cleanup example_platform 5000 default_options shared_body_store)))) = 1 \<and>
   deletedEntries (fst (cleanup example_platform (1001 + DEFAULT_TTL) default_options
      (snd (cleanup example_platform (1000 + DEFAULT_TTL) default_options expiring_store)))) = 1"
  by (simp add: shared_cleanup expiring_first)
     (simp add: cleanup_def Let_def survivors_def read_no_filters matchesFilters_no_filters
      expiring_store_def default_options_def ttl_of_def maxSize_of_def DEFAULT_MAX_SIZE_def
      DEFAULT_TTL_def
      disk_total_def requests_size_def bodies_size_def example_entry_def referencedHashes_def
      truthy_str_def example_platform_def)

lemma cleanup_requests_None:
  "requests st = None \<Longrightarrow> cleanup P now opts st =
     (\<lparr>deletedEntries = 0, deletedBodies = 0, freedBytes = 0, remainingEntries = None\<rparr>,
      st\<lparr>meta := Some now\<rparr>)"
  by (simp add: cleanup_def)

lemma filter_filter_compl: "filter (\<lambda>b. f b \<notin> S) (filter (\<lambda>b. f b \<in> S) xs) = []"
  by (induction xs) auto

lemma filter_filter_same: "filter (\<lambda>b. f b \<in> S) (filter (\<lambda>b. f b \<in> S) xs) = filter (\<lambda>b. f b \<in> S) xs"
  by (induction xs) auto

lemma cleanup_requests_Some:
  "requests st = Some ls \<Longrightarrow> \<exists>ls'. requests (snd (cleanup P now opts st)) = Some ls'"
  by (simp add: cleanup_def Let_def)

lemma cleanup_requests_empty:
  "requests st = Some ls \<Longrightarrow> fst (survivors P now opts st) = [] \<Longrightarrow>
   requests (snd (cleanup P now opts st)) = Some []"
  by (simp add: cleanup_def Let_def)

text \<open>
  Claim C2, amended. Let \<open>st1\<close> be the store after one \<^verbatim>\<open>cleanup\<close>. If the bytes on disk
  in \<open>st1\<close> are within the cap (or no entry is left), and no entry of \<open>st1\<close> is older
  than the TTL at the clock reading \<open>now2\<close> of the second run, the second run deletes no
  entry and no body file and leaves the log and the bodies directory as they are.
\<close>

theorem cleanup_twice_no_work:
  assumes st1: "st1 = snd (cleanup P now opts st)"
    and size: "real (disk_total st1) \<le> maxSize_of opts \<or> readEntriesSync P no_filters st1 = []"
    and fresh: "\<forall>e \<in> set (readEntriesSync P no_filters st1). timestamp e \<ge> now2 - ttl_of opts"
  shows "deletedEntries (fst (cleanup P now2 opts st1)) = 0 \<and>
         deletedBodies (fst (cleanup P now2 opts st1)) = 0 \<and>
         requests (snd (cleanup P now2 opts st1)) = requests st1 \<and>
         bodies (snd (cleanup P now2 opts st1)) = bodies st1"
proof (cases "requests st")
  case None
  then have "requests st1 = None" by (simp add: st1 cleanup_requests_None)
  then show ?thesis by (simp add: cleanup_requests_None)
next
  case (Some ls)
  then obtain ls1 where ls1: "requests st1 = Some ls1"
    using cleanup_requests_Some [of st ls P now opts] st1 by auto
  let ?S = "readEntriesSync P no_filters st1"
  have S: "?S = fst (survivors P now opts st)"
    unfolding st1 using Some by (rule read_after_cleanup)
  have all: "filter (\<lambda>e. timestamp e \<ge> now2 - ttl_of opts) ?S = ?S"
    using fresh by (simp add: filter_True)
  have surv2: "survivors P now2 opts st1 = (?S, real (disk_total st1))"
    using size survivors_no_evict [of st1 opts now2 P] all by auto
  have b1: "bodies st1 = filter (\<lambda>b. fst b \<in> set (referencedHashes ?S)) (bodies st)"
    using cleanup_bodies [OF Some, of P now opts] S st1 by simp
  have req: "?S = [] \<Longrightarrow> requests st1 = Some []"
    using cleanup_requests_empty [OF Some, of P now opts] S st1 by simp
  show ?thesis
    using ls1 req
    by (auto simp: cleanup_def Let_def surv2 b1 filter_filter_compl filter_filter_same)
qed

text \<open>
  The amended claim C2 on \<open>expiring_store\<close>, both runs at the same clock reading.
\<close>

theorem cleanup_twice_no_work_witness:
  "real (disk_total (snd (cleanup example_platform (1000 + DEFAULT_TTL) default_options
       expiring_store))) \<le> maxSize_of default_options \<and>
   deletedEntries (fst (cleanup example_platform (1000 + DEFAULT_TTL) default_options
     (snd (cleanup example_platform (1000 + DEFAULT_TTL) default_options expiring_store)))) = 0 \<and>
   requests (snd (cleanup example_platform (1000 + DEFAULT_TTL) default_options
     (snd (cleanup example_platform (1000 + DEFAULT_TTL) default_options expiring_store))))
     = requests expiring_store"
proof -
  let ?st1 = "snd (cleanup example_platform (1000 + DEFAULT_TTL) default_options expiring_store)"
  have st1: "?st1 = expiring_store\<lparr>meta := Some (1000 + DEFAULT_TTL)\<rparr>"
    by (simp add: expiring_first)
  have size: "real (disk_total ?st1) \<le> maxSize_of default_options"
    unfolding st1
    by (simp add: disk_total_def expiring_store_def requests_size_def bodies_size_def
        maxSize_of_def default_options_def DEFAULT_MAX_SIZE_def)
  have fresh: "\<forall>e \<in> set (readEntriesSync example_platform no_filters ?st1).
      timestamp e \<ge> (1000 + DEFAULT_TTL) - ttl_of default_options"
    unfolding st1
    by (simp add: read_no_filters matchesFilters_no_filters expiring_store_def
        example_entry_def ttl_of_def default_options_def)
  have "requests ?st1 = requests expiring_store" by (simp add: st1)
  then show ?thesis
    using size cleanup_twice_no_work [OF refl disjI1 [OF size] fresh] by simp
qed




text \<open>
  Claim C5. Storing the same content as the same kind twice returns the same hash both
  times; the second call leaves the store as the first left it and writes no file; and
  the directory then holds exactly one file of that content's name, which is the only
  name that was added.
\<close>

theorem storeBody_dedup:
  assumes "distinct (map fst (bodies st))"
  shows "fst (storeBody P content isRequest (snd (storeBody P content isRequest st))) =
           fst (storeBody P content isRequest st) \<and>
         snd (storeBody P content isRequest (snd (storeBody P content isRequest st))) =
           snd (storeBody P content isRequest st) \<and>
         fst (storeBody P content isRequest st) = take 16 (sha256_hex P content) \<and>
         length (filter (\<lambda>b. fst b = body_name (take 16 (sha256_hex P content)) isRequest)
           (bodies (snd (storeBody P content isRequest st)))) = 1 \<and>
         set (map fst (bodies (snd (storeBody P content isRequest st)))) =
           insert (body_name (take 16 (sha256_hex P content)) isRequest) (set (map fst (bodies st))) \<and>
         body_writes (snd (storeBody P content isRequest (snd (storeBody P content isRequest st)))) =
           body_writes (snd (storeBody P content isRequest st))"
proof -
  let ?n = "body_name (take 16 (sha256_hex P content)) isRequest"
  have one: "distinct (map fst bs) \<Longrightarrow> n \<in> set (map fst bs) \<Longrightarrow>
      length (filter (\<lambda>b. fst b = n) bs) = 1" for bs :: "(string \<times> bytes) list" and n
    by (induction bs) (force simp: filter_empty_conv)+
  have none: "n \<notin> set (map fst bs) \<Longrightarrow> filter (\<lambda>b. fst b = n) bs = []"
    for bs :: "(string \<times> bytes) list" and n
    by (induction bs) auto
  show ?thesis
  proof (cases "?n \<in> set (map fst (bodies st))")
    case True
    then show ?thesis using one [OF assms True]
      by (auto simp: storeBody_def Let_def)
  next
    case False
    then show ?thesis using none [OF False]
      by (auto simp: storeBody_def Let_def)
  qed
qed

text \<open>
  Claim C5 on the empty store: two stores of the body \<^verbatim>\<open>{}\<close>, one file, one write.
\<close>

theorem storeBody_dedup_witness:
  "distinct (map fst (bodies empty_store)) \<and>
   storeBody example_platform ''{}'' False
     (snd (storeBody example_platform ''{}'' False empty_store)) =
     (''0011223344556677'',
      \<lparr>requests = None, bodies = [(''0011223344556677.res'', ''{}'')], meta = None, lock = None,
       body_writes = 1\<rparr>)"
proof -
  have d: "distinct (map fst (bodies empty_store))" by (simp add: empty_store_def)
  have "snd (storeBody example_platform ''{}'' False empty_store) =
      \<lparr>requests = None, bodies = [(''0011223344556677.res'', ''{}'')], meta = None, lock = None,
       body_writes = 1\<rparr>"
    by (simp add: storeBody_def empty_store_def example_platform_def body_name_def)
  moreover have "fst (storeBody example_platform ''{}'' False empty_store) = ''0011223344556677''"
    by (simp add: storeBody_def empty_store_def example_platform_def body_name_def Let_def)
  ultimately show ?thesis
    using d storeBody_dedup [OF d, of example_platform "''{}''" False]
    by (metis prod.collapse)
qed

lemma appendFileSync_requests:
  "requests (appendFileSync l st) =
     Some ((case requests st of None \<Rightarrow> [] | Some ls \<Rightarrow> ls) @ [l])"
  by (simp add: appendFileSync_def split: option.splits)



section \<open>Properties of the query filters\<close>

lemma str_includes_sublist: "str_includes s p \<longleftrightarrow> sublist p s"
  by (induction s) (auto simp: sublist_Cons_right)

lemma collect_matches_filter:
  "collect_matches P f ls =
     filter (\<lambda>e. matchesFilters P e f = Some True)
       (map the (filter (\<lambda>p. p \<noteq> None) (map parsed ls)))"
  by (induction ls) (auto split: option.splits bool.splits)

lemma origin_ok_iff:
  "origin_ok P e og \<longleftrightarrow> (\<forall>v. og = Some v \<and> v \<noteq> [] \<longrightarrow> url_origin P (url e) = Some v)"
  by (cases og) (auto simp: origin_ok_def truthy_str_def getOriginFromUrl_def)

lemma method_ok_iff:
  "method_ok e m \<longleftrightarrow> (\<forall>v. m = Some v \<and> v \<noteq> [] \<longrightarrow> http_method e = toUpperCase v)"
  by (cases m) (auto simp: method_ok_def)

lemma status_ok_iff:
  "status_ok e sf \<longleftrightarrow>
     (\<forall>n. sf = Some (StatusNum n) \<longrightarrow> int (status e) = n) \<and>
     (\<forall>s. sf = Some (StatusStr s) \<and> suffix ''xx'' s \<longrightarrow> prefix [hd s] (decimal (status e))) \<and>
     (\<forall>s. sf = Some (StatusStr s) \<and> \<not> suffix ''xx'' s \<longrightarrow> parseInt10 s = Some (int (status e)))"
  by (cases sf) (auto simp: status_ok_def split: status_filter.splits)

lemma type_ok_iff:
  "type_ok e ty \<longleftrightarrow> (\<forall>t. ty = Some t \<and> t \<noteq> [] \<longrightarrow> str_includes (entryContentType e) t)"
  by (cases ty) (auto simp: type_ok_def)

lemma since_ok_iff:
  "since_ok e since \<longleftrightarrow> (\<forall>t. since = Some t \<and> t \<noteq> 0 \<longrightarrow> timestamp e \<ge> t)"
  by (cases since) (auto simp: since_ok_def)

lemma hasBody_ok_iff:
  "hasBody_ok e hb \<longleftrightarrow> (\<forall>b. hb = Some b \<longrightarrow> b = truthy_str (responseBodyHash e))"
  by (cases hb) (auto simp: hasBody_ok_def)

lemma static_ok_iff:
  "static_ok e excl \<longleftrightarrow>
     (excl \<longrightarrow> \<not> (\<exists>ext \<in> set staticExts.
        suffix ext (toLowerCase (takeWhile (\<lambda>c. c \<noteq> CHR ''?'') (url e)))))"
  by (auto simp: static_ok_def list_ex_iff)

lemma url_pattern_iff:
  "(if truthy_str pat then matchesUrlPattern P u pat else Some True) = Some True \<longleftrightarrow>
     (\<forall>p. pat = Some p \<and> p \<noteq> [] \<longrightarrow>
        (if prefix ''/'' p \<and> suffix ''/'' p then regexp_test P (butlast (tl p)) u = Some True
         else if CHR ''*'' \<in> set p then regexp_test P (glob_to_regex p) u = Some True
         else str_includes u p))"
  by (cases pat) (auto simp: matchesUrlPattern_def truthy_str_def split: option.splits)

lemma matchesFilters_iff:
  "matchesFilters P e f = Some True \<longleftrightarrow>
     origin_ok P e (flt_origin f) \<and> method_ok e (flt_method f) \<and> status_ok e (flt_status f) \<and>
     type_ok e (flt_type f) \<and> since_ok e (flt_since f) \<and> hasBody_ok e (flt_hasBody f) \<and>
     static_ok e (flt_excludeStatic f) \<and>
     (if truthy_str (flt_urlPattern f) then matchesUrlPattern P (url e) (flt_urlPattern f)
      else Some True) = Some True"
  by (simp add: matchesFilters_def)

text \<open>
  Claim C3, amended. The query returns the last \<^verbatim>\<open>last\<close> (when positive) of the entries
  of the well-formed lines, in log order, that satisfy every filter given: the origin is
  the filter's; the method is the filter's in upper case; the status is the filter's
  number, or its decimal text starts with the first character of a filter string that
  ends in \<^verbatim>\<open>xx\<close>, or it is the integer that another filter string parses to; the content
  type contains the filter's text; the timestamp is not before the minimum; a response
  body is present or absent as asked; with \<^verbatim>\<open>excludeStatic\<close>, the URL before its first
  question mark, in lower case, ends in none of the static extensions; and the URL
  matches the pattern, as a regular expression between slashes, as a glob turned into a
  regular expression when it holds a star, as a substring otherwise. An empty filter
  string, a zero minimum and a missing property filter nothing.
\<close>

theorem readEntriesSync_filters:
  "readEntriesSync P f st =
     (case requests st of
        None \<Rightarrow> []
      | Some ls \<Rightarrow>
          tail_slice (flt_last f)
            (filter (\<lambda>e.
               (\<forall>v. flt_origin f = Some v \<and> v \<noteq> [] \<longrightarrow> url_origin P (url e) = Some v) \<and>
               (\<forall>v. flt_method f = Some v \<and> v \<noteq> [] \<longrightarrow> http_method e = toUpperCase v) \<and>
               (\<forall>n. flt_status f = Some (StatusNum n) \<longrightarrow> int (status e) = n) \<and>
               (\<forall>s. flt_status f = Some (StatusStr s) \<and> suffix ''xx'' s \<longrightarrow>
                     prefix [hd s] (decimal (status e))) \<and>
               (\<forall>s. flt_status f = Some (StatusStr s) \<and> \<not> suffix ''xx'' s \<longrightarrow>
                     parseInt10 s = Some (int (status e))) \<and>
               (\<forall>t. flt_type f = Some t \<and> t \<noteq> [] \<longrightarrow> sublist t (entryContentType e)) \<and>
               (\<forall>t. flt_since f = Some t \<and> t \<noteq> 0 \<longrightarrow> timestamp e \<ge> t) \<and>
               (\<forall>b. flt_hasBody f = Some b \<longrightarrow> b = truthy_str (responseBodyHash e)) \<and>
               (flt_excludeStatic f \<longrightarrow> \<not> (\<exists>ext \<in> set staticExts.
                     suffix ext (toLowerCase (takeWhile (\<lambda>c. c \<noteq> CHR ''?'') (url e))))) \<and>
               (\<forall>p. flt_urlPattern f = Some p \<and> p \<noteq> [] \<longrightarrow>
                  (if prefix ''/'' p \<and> suffix ''/'' p
                   then regexp_test P (butlast (tl p)) (url e) = Some True
                   else if CHR ''*'' \<in> set p
                   then regexp_test P (glob_to_regex p) (url e) = Some True
                   else sublist p (url e))))
               (map the (filter (\<lambda>p. p \<noteq> None) (map parsed ls)))))"
  unfolding readEntriesSync_def collect_matches_filter matchesFilters_iff
    origin_ok_iff method_ok_iff status_ok_iff type_ok_iff since_ok_iff hasBody_ok_iff
    static_ok_iff url_pattern_iff str_includes_sublist
  by (simp split: option.splits)

text \<open>
  Claim C3 as stated fails on the exclude-static filter. The URL
  \<^verbatim>\<open>https://a.test/app.js?v=2\<close> does not end in a static extension, so it satisfies the
  filter as the claim words it; the query drops it, because the extension is looked for
  before the question mark.
\<close>

theorem exclude_static_counterexample:
  "claimed_static_ok (api_entry ''4'' ''GET'' ''https://a.test/app.js?v=2'' 200) True \<and>
   readEntriesSync example_platform (no_filters\<lparr>flt_excludeStatic := True\<rparr>)
     \<lparr>requests = Some [Line 100 (Some (api_entry ''4'' ''GET'' ''https://a.test/app.js?v=2'' 200))],
      bodies = [], meta = None, lock = None, body_writes = 0\<rparr> = []"
  by (simp add: claimed_static_ok_def api_entry_def staticExts_def suffix_to_prefix
      readEntriesSync_def tail_slice_def no_filters_def matchesFilters_def origin_ok_def
      method_ok_def status_ok_def type_ok_def since_ok_def hasBody_ok_def static_ok_def
      truthy_str_def toLowerCase_def lower_char_def)

lemma example_query_result:
  "readEntriesSync substring_platform example_query query_store =
     [api_entry ''3'' ''GET'' ''https://a.test/api/items?x=1'' 204]"
  by (simp add: readEntriesSync_def query_store_def example_query_def tail_slice_def
      matchesFilters_def origin_ok_def method_ok_def status_ok_def type_ok_def since_ok_def
      hasBody_ok_def static_ok_def truthy_str_def toLowerCase_def lower_char_def
      toUpperCase_def upper_char_def api_entry_def staticExts_def suffix_to_prefix
      decimal.simps digit_chars_def entryContentType_def matchesUrlPattern_def
      substring_platform_def example_platform_def)

text \<open>
  The amended claim C3 on \<open>query_store\<close>: of the two requests that pass every filter of
  \<open>example_query\<close>, the last one is returned.
\<close>

theorem readEntriesSync_filters_witness:
  "readEntriesSync substring_platform example_query query_store =
     [api_entry ''3'' ''GET'' ''https://a.test/api/items?x=1'' 204]"
  using readEntriesSync_filters [of substring_platform example_query query_store]
    example_query_result
  by simp

section \<open>Properties of the workflow engine\<close>

lemma single_ok:
  assumes "R sent (cmd s, substituteVars L (argsOf s) vs) = Resolved resp"
    and "\<not> nullish resp" and "\<not> truthy (get_prop resp ''error'')"
  shows "executeSingleStep L R opts s vs sent =
     (\<lparr>success = True, error = None,
       step_output = (if truthy_name (as s)
                      then get_var (set_var (the (as s)) (extractStepOutput L resp) vs) (the (as s))
                      else JUndefined)\<rparr>,
      (if truthy_name (as s) then set_var (the (as s)) (extractStepOutput L resp) vs else vs),
      sent @ leaf_requests L opts s vs)"
  using assms
  by (simp add: executeSingleStep_def sendDoRequest_def Let_def leaf_requests_def argsOf_def
      split: option.splits)



























text \<open>
  Claim C9 as stated fails. A reply whose only content part is an image has no text; what
  is captured is \<^verbatim>\<open>resp.result\<close>, not the whole reply.
\<close>

theorem extract_fallback_counterexample:
  "extractStepOutput example_lib image_reply =
     JObj [(''content'', JArr [JObj [(''type'', JStr ''image''), (''data'', JStr ''iVBOR'')]])] \<and>
   extractStepOutput example_lib image_reply \<noteq> image_reply"
  by (simp add: extractStepOutput_def image_reply_def content0_text_def get_prop_def
      get_index0_def nullish_def truthy_def)

lemma get_set_var: "get_var (set_var k v vs) k = v"
  by (simp add: get_var_def set_var_def)

text \<open>
  Claim C9, amended. If the text of the first content part of \<^verbatim>\<open>resp.result\<close> is a
  non-empty string that parses as JSON, the parsed value is captured; if it does not
  parse, the raw text; if that text is missing or falsy, \<^verbatim>\<open>resp.value\<close> when defined,
  else \<^verbatim>\<open>resp.result\<close> when defined, else the whole reply. That value is what a
  successful step stores in the variable named by \<^verbatim>\<open>as\<close>.
\<close>

theorem extractStepOutput_cases:
  "(content0_text (get_prop resp ''result'') = JStr t \<and> t \<noteq> [] \<and> json_parse L t = Some v
      \<longrightarrow> extractStepOutput L resp = v) \<and>
   (content0_text (get_prop resp ''result'') = JStr t \<and> t \<noteq> [] \<and> json_parse L t = None
      \<longrightarrow> extractStepOutput L resp = JStr t) \<and>
   (\<not> truthy (content0_text (get_prop resp ''result''))
      \<longrightarrow> extractStepOutput L resp =
            (if get_prop resp ''value'' \<noteq> JUndefined then get_prop resp ''value''
             else if get_prop resp ''result'' \<noteq> JUndefined then get_prop resp ''result''
             else resp)) \<and>
   (resp = JObj kvs \<and> map_of kvs ''result'' = Some (JObj rs) \<and>
    map_of rs ''content'' = Some (JArr (JObj part # others))
      \<longrightarrow> content0_text (get_prop resp ''result'') =
            (case map_of part ''text'' of Some x \<Rightarrow> x | None \<Rightarrow> JUndefined)) \<and>
   (R sent (cmd s, substituteVars L (argsOf s) vs) = Resolved resp \<and> \<not> nullish resp \<and>
    \<not> truthy (get_prop resp ''error'') \<and> truthy_name (as s)
      \<longrightarrow> get_var (fst (snd (executeSingleStep L R opts s vs sent))) (the (as s)) =
            extractStepOutput L resp)"
proof -
  have a: "content0_text (get_prop resp ''result'') = JStr t \<and> t \<noteq> [] \<and> json_parse L t = Some v
      \<longrightarrow> extractStepOutput L resp = v"
    by (simp add: extractStepOutput_def truthy_def)
  have b: "content0_text (get_prop resp ''result'') = JStr t \<and> t \<noteq> [] \<and> json_parse L t = None
      \<longrightarrow> extractStepOutput L resp = JStr t"
    by (simp add: extractStepOutput_def truthy_def)
  have c: "\<not> truthy (content0_text (get_prop resp ''result''))
      \<longrightarrow> extractStepOutput L resp =
            (if get_prop resp ''value'' \<noteq> JUndefined then get_prop resp ''value''
             else if get_prop resp ''result'' \<noteq> JUndefined then get_prop resp ''result''
             else resp)"
    by (simp add: extractStepOutput_def)
  have d: "resp = JObj kvs \<and> map_of kvs ''result'' = Some (JObj rs) \<and>
    map_of rs ''content'' = Some (JArr (JObj part # others))
      \<longrightarrow> content0_text (get_prop resp ''result'') =
            (case map_of part ''text'' of Some x \<Rightarrow> x | None \<Rightarrow> JUndefined)"
    by (simp add: content0_text_def get_prop_def get_index0_def nullish_def)
  have e: "R sent (cmd s, substituteVars L (argsOf s) vs) = Resolved resp \<and> \<not> nullish resp \<and>
    \<not> truthy (get_prop resp ''error'') \<and> truthy_name (as s)
      \<longrightarrow> get_var (fst (snd (executeSingleStep L R opts s vs sent))) (the (as s)) =
            extractStepOutput L resp"
    by (simp add: single_ok get_set_var)
  from a b c d e show ?thesis by (intro conjI)
qed

text \<open>
  The amended claim C9 on a reply whose text parses, one whose text does not, and one
  with a \<^verbatim>\<open>value\<close> and no content.
\<close>

theorem extractStepOutput_cases_witness:
  "content0_text (get_prop (text_reply ''true'') ''result'') = JStr ''true'' \<and>
   extractStepOutput example_lib (text_reply ''true'') = JBool True \<and>
   extractStepOutput example_lib (text_reply ''Example Domain'') = JStr ''Example Domain'' \<and>
   extractStepOutput example_lib (JObj [(''value'', JNum 7)]) = JNum 7"
proof -
  have t1: "content0_text (get_prop (text_reply s) ''result'') = JStr s" for s
    by (simp add: text_reply_def content0_text_def get_prop_def get_index0_def nullish_def)
  have p1: "json_parse example_lib ''true'' = Some (JBool True)"
    by (simp add: example_lib_def)
  have p2: "json_parse example_lib ''Example Domain'' = None"
    by (simp add: example_lib_def)
  have t3: "\<not> truthy (content0_text (get_prop (JObj [(''value'', JNum 7)]) ''result''))"
    by (simp add: content0_text_def get_prop_def nullish_def truthy_def)
  have a: "extractStepOutput example_lib (text_reply ''true'') = JBool True"
    using extractStepOutput_cases [where resp = "text_reply ''true''" and t = "''true''"
        and L = example_lib and v = "JBool True", THEN conjunct1] t1 p1 by simp
  have b: "extractStepOutput example_lib (text_reply ''Example Domain'') = JStr ''Example Domain''"
    using extractStepOutput_cases [where resp = "text_reply ''Example Domain''"
        and t = "''Example Domain''" and L = example_lib,
        THEN conjunct2, THEN conjunct1] t1 p2 by simp
  have c: "extractStepOutput example_lib (JObj [(''value'', JNum 7)]) = JNum 7"
    using extractStepOutput_cases [where resp = "JObj [(''value'', JNum 7)]" and L = example_lib,
        THEN conjunct2, THEN conjunct2, THEN conjunct1] t3
    by (simp add: get_prop_def)
  from t1 a b c show ?thesis by simp
qed








end
